theory Spec2Isabelle
  imports Main "HOL-Library.Word"
begin

unbundle bit_operations_syntax

section \<open>Hasher\<close>

text \<open>
  \<^verbatim>\<open>get_content_hash\<close> is \<^verbatim>\<open>hashlib.sha256(content.encode()).hexdigest()\<close>.
  A Python \<^verbatim>\<open>str\<close> is modelled by the \<open>string\<close> of its UTF-8 bytes (UTF-8 is
  injective, so equality and emptiness of the text are those of its bytes), which makes
  \<^verbatim>\<open>content.encode()\<close> the map from characters to byte values. SHA-256 is written out
  after FIPS 180-4: 32-bit words, big-endian, blocks of 64 bytes; the 64 round constants are
  listed eight to a row.
\<close>

type_synonym u8 = "8 word"
type_synonym u32 = "32 word"

definition rotr :: "nat \<Rightarrow> u32 \<Rightarrow> u32" where
  "rotr n x = drop_bit n x OR push_bit (32 - n) x"

definition ch :: "u32 \<Rightarrow> u32 \<Rightarrow> u32 \<Rightarrow> u32" where
  "ch x y z = (x AND y) XOR (NOT x AND z)"

definition maj :: "u32 \<Rightarrow> u32 \<Rightarrow> u32 \<Rightarrow> u32" where
  "maj x y z = (x AND y) XOR (x AND z) XOR (y AND z)"

definition bsig0 :: "u32 \<Rightarrow> u32" where
  "bsig0 x = rotr 2 x XOR rotr 13 x XOR rotr 22 x"

definition bsig1 :: "u32 \<Rightarrow> u32" where
  "bsig1 x = rotr 6 x XOR rotr 11 x XOR rotr 25 x"

definition ssig0 :: "u32 \<Rightarrow> u32" where
  "ssig0 x = rotr 7 x XOR rotr 18 x XOR drop_bit 3 x"

definition ssig1 :: "u32 \<Rightarrow> u32" where
  "ssig1 x = rotr 17 x XOR rotr 19 x XOR drop_bit 10 x"

definition sha256_k :: "u32 list" where
  "sha256_k =
       [0x428a2f98, 0x71374491, 0xb5c0fbcf, 0xe9b5dba5, 0x3956c25b, 0x59f111f1, 0x923f82a4, 0xab1c5ed5]
     @ [0xd807aa98, 0x12835b01, 0x243185be, 0x550c7dc3, 0x72be5d74, 0x80deb1fe, 0x9bdc06a7, 0xc19bf174]
     @ [0xe49b69c1, 0xefbe4786, 0x0fc19dc6, 0x240ca1cc, 0x2de92c6f, 0x4a7484aa, 0x5cb0a9dc, 0x76f988da]
     @ [0x983e5152, 0xa831c66d, 0xb00327c8, 0xbf597fc7, 0xc6e00bf3, 0xd5a79147, 0x06ca6351, 0x14292967]
     @ [0x27b70a85, 0x2e1b2138, 0x4d2c6dfc, 0x53380d13, 0x650a7354, 0x766a0abb, 0x81c2c92e, 0x92722c85]
     @ [0xa2bfe8a1, 0xa81a664b, 0xc24b8b70, 0xc76c51a3, 0xd192e819, 0xd6990624, 0xf40e3585, 0x106aa070]
     @ [0x19a4c116, 0x1e376c08, 0x2748774c, 0x34b0bcb5, 0x391c0cb3, 0x4ed8aa4a, 0x5b9cca4f, 0x682e6ff3]
     @ [0x748f82ee, 0x78a5636f, 0x84c87814, 0x8cc70208, 0x90befffa, 0xa4506ceb, 0xbef9a3f7, 0xc67178f2]"

type_synonym sha_state = "u32 \<times> u32 \<times> u32 \<times> u32 \<times> u32 \<times> u32 \<times> u32 \<times> u32"

definition sha256_init :: sha_state where
  "sha256_init =
   (0x6a09e667, 0xbb67ae85, 0x3c6ef372, 0xa54ff53a, 0x510e527f, 0x9b05688c, 0x1f83d9ab, 0x5be0cd19)"

definition be_bytes8 :: "64 word \<Rightarrow> u8 list" where
  "be_bytes8 v = map (\<lambda>k. ucast (drop_bit (8 * k) v)) [7, 6, 5, 4, 3, 2, 1, 0]"

definition pad :: "u8 list \<Rightarrow> u8 list" where
  "pad m = m @ [0x80] @ replicate ((119 - length m mod 64) mod 64) 0
             @ be_bytes8 (8 * word_of_nat (length m))"

fun be_words :: "u8 list \<Rightarrow> u32 list" where
  "be_words (a # b # c # d # bs) =
     (push_bit 24 (ucast a) OR push_bit 16 (ucast b) OR push_bit 8 (ucast c) OR ucast d)
       # be_words bs"
| "be_words _ = []"

fun schedule :: "nat \<Rightarrow> u32 list \<Rightarrow> u32 list" where
  "schedule 0 w = w"
| "schedule (Suc n) w =
     (let t = length w
      in schedule n
           (w @ [ssig1 (w ! (t - 2)) + w ! (t - 7) + ssig0 (w ! (t - 15)) + w ! (t - 16)]))"

definition sha_round :: "sha_state \<Rightarrow> u32 \<times> u32 \<Rightarrow> sha_state" where
  "sha_round s kw =
     (case s of (a, b, c, d, e, f, g, h) \<Rightarrow>
        (let t1 = h + bsig1 e + ch e f g + fst kw + snd kw;
             t2 = bsig0 a + maj a b c
         in (t1 + t2, a, b, c, d + t1, e, f, g)))"

definition add_state :: "sha_state \<Rightarrow> sha_state \<Rightarrow> sha_state" where
  "add_state s s' =
     (case s of (a, b, c, d, e, f, g, h) \<Rightarrow>
      case s' of (a', b', c', d', e', f', g', h') \<Rightarrow>
        (a + a', b + b', c + c', d + d', e + e', f + f', g + g', h + h'))"

definition compress :: "sha_state \<Rightarrow> u8 list \<Rightarrow> sha_state" where
  "compress s block =
     add_state s (foldl sha_round s (zip sha256_k (schedule 48 (be_words block))))"

fun blocks :: "nat \<Rightarrow> u8 list \<Rightarrow> u8 list list" where
  "blocks 0 bs = []"
| "blocks (Suc n) bs = take 64 bs # blocks n (drop 64 bs)"

definition sha256 :: "u8 list \<Rightarrow> sha_state" where
  "sha256 m = (let p = pad m in foldl compress sha256_init (blocks (length p div 64) p))"

definition hex_digit :: "u32 \<Rightarrow> char" where
  "hex_digit n = ''0123456789abcdef'' ! unat (n AND 15)"

definition hex32 :: "u32 \<Rightarrow> string" where
  "hex32 w = map (\<lambda>k. hex_digit (drop_bit (4 * k) w)) [7, 6, 5, 4, 3, 2, 1, 0]"

definition hexdigest :: "sha_state \<Rightarrow> string" where
  "hexdigest s =
     (case s of (a, b, c, d, e, f, g, h) \<Rightarrow> concat (map hex32 [a, b, c, d, e, f, g, h]))"

definition encode :: "string \<Rightarrow> u8 list" where
  "encode s = map (\<lambda>c. word_of_nat (of_char c)) s"

definition get_content_hash :: "string \<Rightarrow> string" where
  "get_content_hash content = hexdigest (sha256 (encode content))"

section \<open>Record store\<close>

text \<open>
  A \<^verbatim>\<open>datetime\<close> is the number of microseconds since \<^verbatim>\<open>datetime.min\<close>
  (0001-01-01 00:00:00); \<^verbatim>\<open>datetime.max\<close> is 9999-12-31 23:59:59.999999, the last
  microsecond of day 3652059.
\<close>

type_synonym datetime = int

definition datetime_max :: datetime where
  "datetime_max = 3652059 * 86400000000 - 1"

datatype sqlite3_error = OperationalError | IntegrityError

datatype error =
    Sqlite3_Error sqlite3_error
  | TypeError
  | ValueError
  | OverflowError
  | AssertionError

text \<open>A row of \<^verbatim>\<open>websites\<close> and of \<^verbatim>\<open>website_archive\<close>, columns in schema order.\<close>

record website_row =
  row_url :: string
  row_timestamp :: datetime
  row_content_hash :: string
  row_content :: string

text \<open>
  The \<^verbatim>\<open>urls\<close> table. \<^verbatim>\<open>create_tables\<close> declares it with the single column
  \<^verbatim>\<open>url\<close>, while every other statement on it names a column \<^verbatim>\<open>last_checked\<close>; as
  \<^verbatim>\<open>CREATE TABLE IF NOT EXISTS\<close> keeps a table that is already in the database file, both
  shapes are modelled.
\<close>

datatype urls_table =
    Urls_only "string list"
  | Urls_checked "(string \<times> datetime) list"

text \<open>
  The database behind the cursor (a table that does not exist is \<open>None\<close>), with the
  number of \<^verbatim>\<open>datetime.now()\<close> readings and of HTTP requests made so far.
\<close>

record world =
  websites :: "website_row list option"
  website_archive :: "website_row list option"
  urls :: "urls_table option"
  clock_reads :: nat
  requests_sent :: nat

datatype http_result = RequestException | Response nat string

text \<open>
  What the program cannot decide: the value of the k-th \<^verbatim>\<open>datetime.now()\<close> and the
  outcome of the k-th \<^verbatim>\<open>requests.get\<close> (an exception, or a status code and a text).
\<close>

record env =
  clock :: "nat \<Rightarrow> datetime"
  http :: "nat \<Rightarrow> string \<Rightarrow> http_result"

definition no_tables :: world where
  "no_tables =
     \<lparr>websites = None, website_archive = None, urls = None, clock_reads = 0, requests_sent = 0\<rparr>"

definition create_tables :: "world \<Rightarrow> world" where
  "create_tables w =
     (let w1 = (case websites w of None \<Rightarrow> w\<lparr>websites := Some []\<rparr> | Some _ \<Rightarrow> w);
          w2 = (case website_archive w1 of None \<Rightarrow> w1\<lparr>website_archive := Some []\<rparr>
                | Some _ \<Rightarrow> w1)
      in (case urls w2 of None \<Rightarrow> w2\<lparr>urls := Some (Urls_only [])\<rparr> | Some _ \<Rightarrow> w2))"

subsection \<open>The SQL statements\<close>

text \<open>
  A statement either fails and changes nothing, or succeeds. A statement on a missing table
  or naming a missing column fails with \<^verbatim>\<open>OperationalError\<close>; an insert of a second row
  with the same primary key fails with \<^verbatim>\<open>IntegrityError\<close>. \<^verbatim>\<open>fetchone\<close> gives the first
  matching row, or \<^verbatim>\<open>None\<close>. Rows are kept in the order of their insertion.
  \<^verbatim>\<open>SELECT url FROM urls\<close> has no \<^verbatim>\<open>ORDER BY\<close>: SQLite may answer it from the index
  of the primary key, in the order of the URLs, where \<open>select_urls\<close> lists them in the
  order of insertion. No property below depends on the order of that list: it is used at
  the empty list, and through its set of elements and their distinctness.
\<close>

definition insert_or_ignore_url :: "string \<Rightarrow> datetime \<Rightarrow> world \<Rightarrow> sqlite3_error + world" where
  "insert_or_ignore_url u ts w =
     (case urls w of
        None \<Rightarrow> Inl OperationalError
      | Some (Urls_only _) \<Rightarrow> Inl OperationalError
      | Some (Urls_checked rows) \<Rightarrow>
          Inr (if u \<in> set (map fst rows) then w
               else w\<lparr>urls := Some (Urls_checked (rows @ [(u, ts)]))\<rparr>))"

definition update_last_checked :: "datetime \<Rightarrow> string \<Rightarrow> world \<Rightarrow> sqlite3_error + world" where
  "update_last_checked ts u w =
     (case urls w of
        None \<Rightarrow> Inl OperationalError
      | Some (Urls_only _) \<Rightarrow> Inl OperationalError
      | Some (Urls_checked rows) \<Rightarrow>
          Inr (w\<lparr>urls := Some (Urls_checked
                 (map (\<lambda>r. if fst r = u then (fst r, ts) else r) rows))\<rparr>))"

definition delete_url :: "string \<Rightarrow> world \<Rightarrow> sqlite3_error + world" where
  "delete_url u w =
     (case urls w of
        None \<Rightarrow> Inl OperationalError
      | Some (Urls_only us) \<Rightarrow> Inr (w\<lparr>urls := Some (Urls_only (filter (\<lambda>x. x \<noteq> u) us))\<rparr>)
      | Some (Urls_checked rows) \<Rightarrow>
          Inr (w\<lparr>urls := Some (Urls_checked (filter (\<lambda>r. fst r \<noteq> u) rows))\<rparr>))"

definition select_urls :: "world \<Rightarrow> sqlite3_error + string list" where
  "select_urls w =
     (case urls w of
        None \<Rightarrow> Inl OperationalError
      | Some (Urls_only us) \<Rightarrow> Inr us
      | Some (Urls_checked rows) \<Rightarrow> Inr (map fst rows))"

definition select_last_checked :: "string \<Rightarrow> world \<Rightarrow> sqlite3_error + datetime option" where
  "select_last_checked u w =
     (case urls w of
        None \<Rightarrow> Inl OperationalError
      | Some (Urls_only _) \<Rightarrow> Inl OperationalError
      | Some (Urls_checked rows) \<Rightarrow> Inr (map_of rows u))"

definition select_website :: "string \<Rightarrow> world \<Rightarrow> sqlite3_error + website_row option" where
  "select_website u w =
     (case websites w of
        None \<Rightarrow> Inl OperationalError
      | Some rows \<Rightarrow> Inr (find (\<lambda>r. row_url r = u) rows))"

definition select_content_hash :: "string \<Rightarrow> world \<Rightarrow> sqlite3_error + string option" where
  "select_content_hash u w =
     (case websites w of
        None \<Rightarrow> Inl OperationalError
      | Some rows \<Rightarrow> Inr (map_option row_content_hash (find (\<lambda>r. row_url r = u) rows)))"

definition insert_website :: "website_row \<Rightarrow> world \<Rightarrow> sqlite3_error + world" where
  "insert_website row w =
     (case websites w of
        None \<Rightarrow> Inl OperationalError
      | Some rows \<Rightarrow>
          if row_url row \<in> set (map row_url rows) then Inl IntegrityError
          else Inr (w\<lparr>websites := Some (rows @ [row])\<rparr>))"

definition insert_website_archive :: "website_row \<Rightarrow> world \<Rightarrow> sqlite3_error + world" where
  "insert_website_archive row w =
     (case website_archive w of
        None \<Rightarrow> Inl OperationalError
      | Some rows \<Rightarrow> Inr (w\<lparr>website_archive := Some (rows @ [row])\<rparr>))"

definition delete_website :: "string \<Rightarrow> world \<Rightarrow> sqlite3_error + world" where
  "delete_website u w =
     (case websites w of
        None \<Rightarrow> Inl OperationalError
      | Some rows \<Rightarrow> Inr (w\<lparr>websites := Some (filter (\<lambda>r. row_url r \<noteq> u) rows)\<rparr>))"

subsection \<open>Watch list\<close>

text \<open>
  \<^verbatim>\<open>update_urls\<close> reads the clock once and runs two statements per URL inside
  \<^verbatim>\<open>try ... except sqlite3.Error\<close>: a failing statement is reported on standard output
  and the loop goes on with the next URL.
\<close>

fun update_urls_loop :: "datetime \<Rightarrow> string list \<Rightarrow> world \<Rightarrow> world" where
  "update_urls_loop timestamp [] w = w"
| "update_urls_loop timestamp (u # new_urls) w =
     update_urls_loop timestamp new_urls
       (case insert_or_ignore_url u timestamp w of
          Inl e \<Rightarrow> w
        | Inr w1 \<Rightarrow>
            (case update_last_checked timestamp u w1 of
               Inl e \<Rightarrow> w1
             | Inr w2 \<Rightarrow> w2))"

definition update_urls :: "env \<Rightarrow> string list \<Rightarrow> world \<Rightarrow> world" where
  "update_urls env new_urls w =
     (let timestamp = clock env (clock_reads w)
      in update_urls_loop timestamp new_urls (w\<lparr>clock_reads := Suc (clock_reads w)\<rparr>))"

fun remove_urls :: "string list \<Rightarrow> world \<Rightarrow> world" where
  "remove_urls [] w = w"
| "remove_urls (u # del_urls) w =
     remove_urls del_urls (case delete_url u w of Inl e \<Rightarrow> w | Inr w1 \<Rightarrow> w1)"

definition get_all_urls :: "world \<Rightarrow> error + string list" where
  "get_all_urls w =
     (case select_urls w of Inl e \<Rightarrow> Inl (Sqlite3_Error e) | Inr us \<Rightarrow> Inr us)"

subsection \<open>Content fetcher\<close>

text \<open>
  \<^verbatim>\<open>raise_for_status\<close> raises \<^verbatim>\<open>HTTPError\<close>, a \<^verbatim>\<open>RequestException\<close>, for a status
  code from 400 to 599. Both exceptions end in \<^verbatim>\<open>return ''\<close>.
\<close>

definition get_website_content :: "env \<Rightarrow> string \<Rightarrow> world \<Rightarrow> string \<times> world" where
  "get_website_content env u w =
     (let w1 = w\<lparr>requests_sent := Suc (requests_sent w)\<rparr>
      in case http env (requests_sent w) u of
           RequestException \<Rightarrow> ([], w1)
         | Response status_code text \<Rightarrow>
             if 400 \<le> status_code \<and> status_code < 600 then ([], w1) else (text, w1))"

subsection \<open>Change monitor\<close>

text \<open>
  The timestamps in the database are text: the \<^verbatim>\<open>sqlite3\<close> adapter writes a
  \<^verbatim>\<open>datetime\<close> as \<^verbatim>\<open>isoformat(' ')\<close>, which leaves the fraction out when the
  microsecond is 0, and \<^verbatim>\<open>strptime\<close> with \<^verbatim>\<open>'%Y-%m-%d %H:%M:%S.%f'\<close> raises
  \<^verbatim>\<open>ValueError\<close> on a text without fraction.
\<close>

definition strptime :: "datetime \<Rightarrow> error + datetime" where
  "strptime timestamp = (if timestamp mod 1000000 = 0 then Inl ValueError else Inr timestamp)"

text \<open>
  \<^verbatim>\<open>now - timedelta(minutes=m)\<close> raises \<^verbatim>\<open>OverflowError\<close> when the result is not a
  \<^verbatim>\<open>datetime\<close> (and so does \<^verbatim>\<open>timedelta\<close> itself beyond 999999999 days, which is
  further out).
\<close>

definition minus_minutes :: "datetime \<Rightarrow> int \<Rightarrow> error + datetime" where
  "minus_minutes now m =
     (let r = now - m * 60000000
      in if 0 \<le> r \<and> r \<le> datetime_max then Inr r else Inl OverflowError)"

definition should_fetch_content ::
  "env \<Rightarrow> string \<Rightarrow> int \<Rightarrow> world \<Rightarrow> (error + bool \<times> string option) \<times> world" where
  "should_fetch_content env u time_delta_minutes w =
     (case select_content_hash u w of
        Inl e \<Rightarrow> (Inl (Sqlite3_Error e), w)
      | Inr hash_result \<Rightarrow>
     (case select_last_checked u w of
        Inl e \<Rightarrow> (Inl (Sqlite3_Error e), w)
      | Inr None \<Rightarrow> (Inl TypeError, w)
      | Inr (Some timestamp) \<Rightarrow>
     (case hash_result of
        None \<Rightarrow> (Inr (True, None), w)
      | Some old_content_hash \<Rightarrow>
     (case strptime timestamp of
        Inl e \<Rightarrow> (Inl e, w)
      | Inr datetime_last_checked \<Rightarrow>
     (let now = clock env (clock_reads w);
          w1 = w\<lparr>clock_reads := Suc (clock_reads w)\<rparr>
      in case minus_minutes now time_delta_minutes of
           Inl e \<Rightarrow> (Inl e, w1)
         | Inr timestamp_now_minus_window \<Rightarrow>
             if datetime_last_checked < timestamp_now_minus_window
             then (Inr (True, Some old_content_hash), w1)
             else (Inr (False, None), w1))))))"

definition store_website_content ::
  "env \<Rightarrow> string \<Rightarrow> string \<Rightarrow> world \<Rightarrow> (error + unit) \<times> world" where
  "store_website_content env u content w =
     (let timestamp = clock env (clock_reads w);
          w1 = w\<lparr>clock_reads := Suc (clock_reads w)\<rparr>;
          content_hash = get_content_hash content
      in case insert_website
                \<lparr>row_url = u, row_timestamp = timestamp,
                 row_content_hash = content_hash, row_content = content\<rparr> w1 of
           Inl e \<Rightarrow> (Inl (Sqlite3_Error e), w1)
         | Inr w2 \<Rightarrow> (Inr (), w2))"

text \<open>
  In \<^verbatim>\<open>archive_old_website_content\<close> the subscript \<^verbatim>\<open>data[3]\<close> comes before
  \<^verbatim>\<open>assert data is not None\<close>, and raises \<^verbatim>\<open>TypeError\<close> on \<^verbatim>\<open>None\<close>.
\<close>

definition archive_old_website_content :: "string \<Rightarrow> world \<Rightarrow> (error + string) \<times> world" where
  "archive_old_website_content u w =
     (case select_website u w of
        Inl e \<Rightarrow> (Inl (Sqlite3_Error e), w)
      | Inr data \<Rightarrow>
     (case data of
        None \<Rightarrow> (Inl TypeError, w)
      | Some row \<Rightarrow>
     (let website_content = row_content row
      in if data = None then (Inl AssertionError, w)
         else
     (case insert_website_archive row w of
        Inl e \<Rightarrow> (Inl (Sqlite3_Error e), w)
      | Inr w1 \<Rightarrow>
     (case delete_website u w1 of
        Inl e \<Rightarrow> (Inl (Sqlite3_Error e), w1)
      | Inr w2 \<Rightarrow> (Inr website_content, w2))))))"

record stats =
  num_errors :: nat
  num_fetches :: nat
  num_changes :: nat
  num_new_pages :: nat

definition no_stats :: stats where
  "no_stats = \<lparr>num_errors = 0, num_fetches = 0, num_changes = 0, num_new_pages = 0\<rparr>"

text \<open>The last statement of the loop body: \<^verbatim>\<open>UPDATE urls SET last_checked = now\<close>.\<close>

definition touch_last_checked :: "env \<Rightarrow> string \<Rightarrow> stats \<Rightarrow> world \<Rightarrow> (error + stats) \<times> world" where
  "touch_last_checked env u st w =
     (let now = clock env (clock_reads w);
          w1 = w\<lparr>clock_reads := Suc (clock_reads w)\<rparr>
      in case update_last_checked now u w1 of
           Inl e \<Rightarrow> (Inl (Sqlite3_Error e), w1)
         | Inr w2 \<Rightarrow> (Inr st, w2))"

text \<open>
  One turn of the loop of \<^verbatim>\<open>monitor_website_changes\<close>. The printed lines and the
  highlighted diff are output only and are left out.
\<close>

definition monitor_url ::
  "env \<Rightarrow> int \<Rightarrow> string \<Rightarrow> stats \<Rightarrow> world \<Rightarrow> (error + stats) \<times> world" where
  "monitor_url env time_delta_minutes u st w =
     (case should_fetch_content env u time_delta_minutes w of
        (Inl e, w1) \<Rightarrow> (Inl e, w1)
      | (Inr (should_fetch, old_content_hash), w1) \<Rightarrow>
          if should_fetch then
            (let st1 = st\<lparr>num_fetches := num_fetches st + 1\<rparr>
             in case get_website_content env u w1 of (current_content, w2) \<Rightarrow>
                if current_content = [] then (Inr (st1\<lparr>num_errors := num_errors st1 + 1\<rparr>), w2)
                else
                  (let current_content_hash = get_content_hash current_content
                   in case old_content_hash of
                        None \<Rightarrow>
                          (let st2 = st1\<lparr>num_new_pages := num_new_pages st1 + 1\<rparr>
                           in case store_website_content env u current_content w2 of
                                (Inl e, w3) \<Rightarrow> (Inl e, w3)
                              | (Inr _, w3) \<Rightarrow> touch_last_checked env u st2 w3)
                      | Some old_hash \<Rightarrow>
                          if old_hash \<noteq> current_content_hash then
                            (let st2 = st1\<lparr>num_changes := num_changes st1 + 1\<rparr>
                             in case archive_old_website_content u w2 of
                                  (Inl e, w3) \<Rightarrow> (Inl e, w3)
                                | (Inr old_content, w3) \<Rightarrow>
                                    (case store_website_content env u current_content w3 of
                                       (Inl e, w4) \<Rightarrow> (Inl e, w4)
                                     | (Inr _, w4) \<Rightarrow> touch_last_checked env u st2 w4))
                          else touch_last_checked env u st1 w2))
          else (Inr st, w1))"

fun monitor_loop ::
  "env \<Rightarrow> int \<Rightarrow> string list \<Rightarrow> stats \<Rightarrow> world \<Rightarrow> (error + stats) \<times> world" where
  "monitor_loop env time_delta_minutes [] st w = (Inr st, w)"
| "monitor_loop env time_delta_minutes (u # us) st w =
     (case monitor_url env time_delta_minutes u st w of
        (Inl e, w1) \<Rightarrow> (Inl e, w1)
      | (Inr st1, w1) \<Rightarrow> monitor_loop env time_delta_minutes us st1 w1)"

definition monitor_website_changes ::
  "env \<Rightarrow> string list \<Rightarrow> int \<Rightarrow> world \<Rightarrow> (error + stats) \<times> world" where
  "monitor_website_changes env us time_delta_minutes w =
     monitor_loop env time_delta_minutes us no_stats w"

section \<open>Notions used by the properties\<close>

text \<open>The operations of the record store, and a run of a sequence of them on a cursor.\<close>

datatype store_op =
    Store string string
  | Archive string
  | Update "string list"
  | Remove "string list"

fun apply_op :: "env \<Rightarrow> store_op \<Rightarrow> world \<Rightarrow> world" where
  "apply_op env (Store u content) w = snd (store_website_content env u content w)"
| "apply_op env (Archive u) w = snd (archive_old_website_content u w)"
| "apply_op env (Update new_urls) w = update_urls env new_urls w"
| "apply_op env (Remove del_urls) w = remove_urls del_urls w"

fun run_ops :: "env \<Rightarrow> store_op list \<Rightarrow> world \<Rightarrow> world" where
  "run_ops env [] w = w"
| "run_ops env (x # xs) w = run_ops env xs (apply_op env x w)"

definition one_snapshot_per_url :: "world \<Rightarrow> bool" where
  "one_snapshot_per_url w =
     (case websites w of None \<Rightarrow> True | Some rows \<Rightarrow> distinct (map row_url rows))"




subsection \<open>Example runs\<close>

text \<open>
  The clock of the examples starts at 2024-01-01 12:00:00.000001 and moves by one
  microsecond per reading.
\<close>

definition noon :: datetime where
  "noon = 63839707200000001"

definition env_page :: "string \<Rightarrow> env" where
  "env_page text = \<lparr>clock = (\<lambda>k. noon + int k), http = (\<lambda>k u. Response 200 text)\<rparr>"


text \<open>
  A database with the \<^verbatim>\<open>last_checked\<close> column, watching one URL checked at the given
  time, with a snapshot of the content \<^verbatim>\<open>v1\<close> taken at the same time.
\<close>

definition watching :: "datetime \<Rightarrow> world" where
  "watching t =
     \<lparr>websites = Some [\<lparr>row_url = ''http://example.com'', row_timestamp = t,
                         row_content_hash = get_content_hash ''v1'', row_content = ''v1''\<rparr>],
      website_archive = Some [],
      urls = Some (Urls_checked [(''http://example.com'', t)]),
      clock_reads = 0, requests_sent = 0\<rparr>"

text \<open>The same watch list before the first fetch.\<close>

definition watching_new :: "datetime \<Rightarrow> world" where
  "watching_new t =
     \<lparr>websites = Some [], website_archive = Some [],
      urls = Some (Urls_checked [(''http://example.com'', t)]),
      clock_reads = 0, requests_sent = 0\<rparr>"

section \<open>Properties\<close>

subsection \<open>Facts about single statements and operations\<close>

lemma find_url_None: "u \<notin> row_url ` set rows \<Longrightarrow> find (\<lambda>r. row_url r = u) rows = None"
  by (auto simp: find_None_iff)

lemma find_url_appended:
  "u \<notin> row_url ` set rows \<Longrightarrow> row_url r = u \<Longrightarrow>
     find (\<lambda>r. row_url r = u) (rows @ [r]) = Some r"
  by (induction rows) auto

lemma filter_url_absent:
  "u \<notin> row_url ` set rows \<Longrightarrow> filter (\<lambda>r. row_url r \<noteq> u) rows = rows"
  by (induction rows) auto

lemma map_of_watched: "u \<in> fst ` set us \<Longrightarrow> \<exists>t. map_of us u = Some t"
  by (metis domD dom_map_of_conv_image_fst)

lemma update_urls_loop_no_column:
  "urls w = Some (Urls_only us) \<Longrightarrow> update_urls_loop ts new_urls w = w"
  by (induction new_urls) (simp_all add: insert_or_ignore_url_def)

lemma urls_create_tables_no_tables: "urls (create_tables no_tables) = Some (Urls_only [])"
  by (simp add: create_tables_def no_tables_def)









lemma websites_update_urls_loop: "websites (update_urls_loop ts us w) = websites w"
  by (induction us arbitrary: w)
     (auto simp: insert_or_ignore_url_def update_last_checked_def
           split: option.splits urls_table.splits)

lemma websites_update_urls: "websites (update_urls env us w) = websites w"
  by (simp add: update_urls_def websites_update_urls_loop)

lemma websites_remove_urls: "websites (remove_urls us w) = websites w"
  by (induction us arbitrary: w)
     (auto simp: delete_url_def split: option.splits urls_table.splits)

lemma one_snapshot_store:
  "one_snapshot_per_url w \<Longrightarrow> one_snapshot_per_url (snd (store_website_content env u c w))"
  by (auto simp: one_snapshot_per_url_def store_website_content_def insert_website_def Let_def
           split: option.splits)

lemma one_snapshot_archive:
  "one_snapshot_per_url w \<Longrightarrow> one_snapshot_per_url (snd (archive_old_website_content u w))"
  by (auto simp: one_snapshot_per_url_def archive_old_website_content_def select_website_def
        insert_website_archive_def delete_website_def distinct_map_filter
           split: option.splits)

lemma one_snapshot_apply_op:
  assumes "one_snapshot_per_url w"
  shows "one_snapshot_per_url (apply_op env x w)"
proof (cases x)
  case (Store u c)
  with assms show ?thesis by (simp add: one_snapshot_store)
next
  case (Archive u)
  with assms show ?thesis by (simp add: one_snapshot_archive)
next
  case (Update us)
  with assms show ?thesis by (simp add: one_snapshot_per_url_def websites_update_urls)
next
  case (Remove us)
  with assms show ?thesis by (simp add: one_snapshot_per_url_def websites_remove_urls)
qed

lemma one_snapshot_run_ops:
  "one_snapshot_per_url w \<Longrightarrow> one_snapshot_per_url (run_ops env xs w)"
  by (induction xs arbitrary: w) (simp_all add: one_snapshot_apply_op)

lemma one_snapshot_create_tables:
  "one_snapshot_per_url w \<Longrightarrow> one_snapshot_per_url (create_tables w)"
  by (auto simp: one_snapshot_per_url_def create_tables_def Let_def split: option.splits)






lemma update_urls_loop_with_column:
  assumes "urls w = Some (Urls_checked rows)"
  shows "\<exists>rows'. urls (update_urls_loop ts new_urls w) = Some (Urls_checked rows')
           \<and> set (map fst rows') = set (map fst rows) \<union> set new_urls
           \<and> (distinct (map fst rows) \<longrightarrow> distinct (map fst rows'))"
  using assms
proof (induction new_urls arbitrary: w rows)
  case Nil
  then show ?case by simp
next
  case (Cons u new_urls)
  define step where "step = map (\<lambda>r. if fst r = u then (fst r, ts) else r)
    (if u \<in> set (map fst rows) then rows else rows @ [(u, ts)])"
  have keys: "map fst step = (if u \<in> set (map fst rows) then map fst rows else map fst rows @ [u])"
    by (auto simp: step_def)
  have "update_urls_loop ts (u # new_urls) w =
          update_urls_loop ts new_urls (w\<lparr>urls := Some (Urls_checked step)\<rparr>)"
    using Cons.prems
    by (simp add: insert_or_ignore_url_def update_last_checked_def step_def)
  moreover obtain rows' where
    "urls (update_urls_loop ts new_urls (w\<lparr>urls := Some (Urls_checked step)\<rparr>)) =
       Some (Urls_checked rows')"
    "set (map fst rows') = set (map fst step) \<union> set new_urls"
    "distinct (map fst step) \<longrightarrow> distinct (map fst rows')"
    using Cons.IH [of "w\<lparr>urls := Some (Urls_checked step)\<rparr>" step] by auto
  ultimately show ?case
    by (auto simp: keys split: if_splits)
qed

lemma update_urls_with_column:
  assumes "urls w = Some (Urls_checked rows)" and "distinct (map fst rows)"
  shows "\<exists>listed. get_all_urls (update_urls env new_urls w) = Inr listed
           \<and> set listed = set (map fst rows) \<union> set new_urls \<and> distinct listed"
proof -
  obtain rows' where
    "urls (update_urls_loop (clock env (clock_reads w)) new_urls
             (w\<lparr>clock_reads := Suc (clock_reads w)\<rparr>)) = Some (Urls_checked rows')"
    "set (map fst rows') = set (map fst rows) \<union> set new_urls"
    "distinct (map fst rows) \<longrightarrow> distinct (map fst rows')"
    using update_urls_loop_with_column
            [of "w\<lparr>clock_reads := Suc (clock_reads w)\<rparr>" rows "clock env (clock_reads w)" new_urls]
      assms(1)
    by auto
  with assms(2) show ?thesis
    by (simp add: update_urls_def get_all_urls_def select_urls_def)
qed

lemma monitor_website_changes_single:
  "monitor_website_changes env [u] W w = monitor_url env W u no_stats w"
  by (simp add: monitor_website_changes_def split: prod.splits sum.splits)

subsection \<open>Facts about the hash\<close>

text \<open>
  The store and the monitor use the hash through equality of digests only. What is
  stated of the digest itself is its shape, 64 lowercase hexadecimal digits, and its
  value on a test vector of the standard.
\<close>

lemma hex_digit_range: "hex_digit n \<in> set ''0123456789abcdef''"
proof -
  have "unat (n AND 15) \<le> unat (15 :: u32)"
    by (rule word_and_le1 [THEN word_le_nat_alt [THEN iffD1]])
  then have "unat (n AND 15) < length ''0123456789abcdef''"
    by simp
  then show ?thesis
    unfolding hex_digit_def by (rule nth_mem)
qed

lemma hex32_digits: "length (hex32 w) = 8" "set (hex32 w) \<subseteq> set ''0123456789abcdef''"
  using hex_digit_range by (auto simp: hex32_def)

lemma hexdigest_digits:
  "length (hexdigest s) = 64 \<and> set (hexdigest s) \<subseteq> set ''0123456789abcdef''"
proof -
  obtain a b c d e f g h where "s = (a, b, c, d, e, f, g, h)"
    by (cases s) auto
  then show ?thesis
    using hex32_digits(2) by (simp add: hexdigest_def hex32_digits(1))
qed

text \<open>The test vector of FIPS 180 for the message \<^verbatim>\<open>abc\<close>.\<close>

lemma get_content_hash_abc:
  "get_content_hash ''abc'' =
     ''ba7816bf8f01cfea414140de5dae2223b00361a396177a9cb410ff61f20015ad''"
  by code_simp

subsection \<open>Watch list\<close>

text \<open>
  C1 (fails on the code). The claim: \<^verbatim>\<open>update_urls\<close> on a store freshly initialized by
  \<^verbatim>\<open>create_tables\<close> puts every URL on the watch list, so that \<^verbatim>\<open>get_all_urls\<close>
  lists it exactly once. What the code does: the \<^verbatim>\<open>urls\<close> table of \<^verbatim>\<open>create_tables\<close> has
  no column \<^verbatim>\<open>last_checked\<close>, every \<^verbatim>\<open>INSERT OR IGNORE\<close> raises
  \<^verbatim>\<open>OperationalError\<close>, which \<^verbatim>\<open>update_urls\<close> catches, and the watch list stays empty
  whatever the list of URLs.
\<close>

theorem update_urls_fresh_store_lists_nothing:
  "get_all_urls (update_urls env new_urls (create_tables no_tables)) = Inr []"
  by (simp add: update_urls_def update_urls_loop_no_column [where us = "[]"]
      urls_create_tables_no_tables get_all_urls_def select_urls_def)

text \<open>
  With a \<^verbatim>\<open>urls\<close> table that has the column, the same function does list every URL
  once (\<open>update_urls_with_column\<close>): the defect is in the schema of \<^verbatim>\<open>create_tables\<close>.
\<close>

subsection \<open>Deciding to fetch\<close>

text \<open>
  C2 (amended). For a watched URL that has a snapshot, whose \<^verbatim>\<open>last_checked\<close> text
  carries a fraction of a second, and a window W for which \<^verbatim>\<open>now - W minutes\<close> is a
  \<^verbatim>\<open>datetime\<close>, \<^verbatim>\<open>should_fetch_content\<close> returns (true, the stored hash) exactly when
  \<^verbatim>\<open>now - last_checked\<close> is strictly more than W minutes, and (false, none) otherwise:
  at \<^verbatim>\<open>now - last_checked = W\<close> minutes it does not fetch.
\<close>

theorem should_fetch_after_window:
  assumes "websites w = Some rows" and "find (\<lambda>r. row_url r = u) rows = Some r"
    and "urls w = Some (Urls_checked us)" and "map_of us u = Some t"
    and "t mod 1000000 \<noteq> 0"
    and "0 \<le> clock env (clock_reads w) - W * 60000000"
    and "clock env (clock_reads w) - W * 60000000 \<le> datetime_max"
  shows "fst (should_fetch_content env u W w) =
           Inr (if W * 60000000 < clock env (clock_reads w) - t
                then (True, Some (row_content_hash r)) else (False, None))"
  using assms
  by (auto simp: should_fetch_content_def select_content_hash_def select_last_checked_def
      strptime_def minus_minutes_def Let_def)

theorem should_fetch_after_window_witness:
  "websites (watching (noon - 3600000002)) =
     Some [\<lparr>row_url = ''http://example.com'', row_timestamp = noon - 3600000002,
            row_content_hash = get_content_hash ''v1'', row_content = ''v1''\<rparr>]
   \<and> fst (should_fetch_content (env_page ''v1'') ''http://example.com'' 60
            (watching (noon - 3600000002))) = Inr (True, Some (get_content_hash ''v1''))"
  using should_fetch_after_window
          [of "watching (noon - 3600000002)"
              "[\<lparr>row_url = ''http://example.com'', row_timestamp = noon - 3600000002,
                 row_content_hash = get_content_hash ''v1'', row_content = ''v1''\<rparr>]"
              "''http://example.com''"
              "\<lparr>row_url = ''http://example.com'', row_timestamp = noon - 3600000002,
                 row_content_hash = get_content_hash ''v1'', row_content = ''v1''\<rparr>"
              "[(''http://example.com'', noon - 3600000002)]" "noon - 3600000002"
              "env_page ''v1''" 60]
  by (simp add: watching_def env_page_def noon_def datetime_max_def)

text \<open>
  C2 as stated fails at the boundary: the URL was checked exactly 60 minutes before the
  reading of the clock, the window is 60 minutes, and no fetch is triggered.
\<close>

theorem should_fetch_boundary_counterexample:
  "clock (env_page ''v1'') (clock_reads (watching (noon - 3600000000))) - (noon - 3600000000)
     = 60 * 60000000
   \<and> fst (should_fetch_content (env_page ''v1'') ''http://example.com'' 60
            (watching (noon - 3600000000))) = Inr (False, None)"
  by (simp add: should_fetch_content_def select_content_hash_def select_last_checked_def
      strptime_def minus_minutes_def Let_def watching_def env_page_def noon_def datetime_max_def)

text \<open>
  C7. For a watched URL that has no snapshot, \<^verbatim>\<open>should_fetch_content\<close> returns
  (true, none) for every window W, and reads neither the clock nor the stored timestamp.
\<close>

theorem no_snapshot_always_fetch:
  assumes "websites w = Some rows" and "u \<notin> row_url ` set rows"
    and "urls w = Some (Urls_checked us)" and "u \<in> fst ` set us"
  shows "should_fetch_content env u W w = (Inr (True, None), w)"
proof -
  obtain t where "map_of us u = Some t"
    using map_of_watched [OF assms(4)] by blast
  then show ?thesis
    using assms(1-3)
    by (simp add: should_fetch_content_def select_content_hash_def select_last_checked_def
        find_url_None)
qed

theorem no_snapshot_always_fetch_witness:
  "websites (watching_new noon) = Some []
   \<and> ''http://example.com'' \<notin> row_url ` set []
   \<and> urls (watching_new noon) = Some (Urls_checked [(''http://example.com'', noon)])
   \<and> ''http://example.com'' \<in> fst ` set [(''http://example.com'', noon)]
   \<and> should_fetch_content (env_page ''hello'') ''http://example.com'' 1000000000000
        (watching_new noon) = (Inr (True, None), watching_new noon)"
  using no_snapshot_always_fetch
          [of "watching_new noon" "[]" "''http://example.com''"
              "[(''http://example.com'', noon)]" "env_page ''hello''" 1000000000000]
  by (simp add: watching_new_def)

subsection \<open>Snapshots and the archive\<close>

text \<open>
  C3 (fails on the code). The claim: archiving a URL that has no snapshot fails with the
  assertion error. What the code does: \<^verbatim>\<open>data[3]\<close> is evaluated before the
  \<^verbatim>\<open>assert\<close>, so the call fails with \<^verbatim>\<open>TypeError\<close> and the store is unchanged.
\<close>

theorem archive_without_snapshot_type_error:
  "select_website u w = Inr None \<Longrightarrow> archive_old_website_content u w = (Inl TypeError, w)"
  by (simp add: archive_old_website_content_def)

theorem archive_without_snapshot_type_error_witness:
  "select_website ''http://example.com'' (create_tables no_tables) = Inr None
   \<and> archive_old_website_content ''http://example.com'' (create_tables no_tables)
       = (Inl TypeError, create_tables no_tables)"
  using archive_without_snapshot_type_error
          [of "''http://example.com''" "create_tables no_tables"]
  by (simp add: select_website_def create_tables_def no_tables_def)

text \<open>The assertion of \<^verbatim>\<open>archive_old_website_content\<close> never fires.\<close>

lemma archive_never_assertion_error:
  "fst (archive_old_website_content u w) \<noteq> Inl AssertionError"
  by (simp add: archive_old_website_content_def split: sum.splits option.splits)

text \<open>
  C4. On a store where the URL has no snapshot, \<^verbatim>\<open>store_website_content\<close> followed by
  \<^verbatim>\<open>archive_old_website_content\<close> appends exactly one archive row, equal in url,
  timestamp, hash and content to the snapshot written, removes that snapshot (the
  \<^verbatim>\<open>websites\<close> table is as before, without a row for the URL) and returns the content.
\<close>

theorem store_then_archive:
  assumes "websites w = Some rows" and "u \<notin> row_url ` set rows"
    and "website_archive w = Some archived"
  shows "fst (store_website_content env u content w) = Inr ()
       \<and> websites (snd (store_website_content env u content w)) =
           Some (rows @ [\<lparr>row_url = u, row_timestamp = clock env (clock_reads w),
                           row_content_hash = get_content_hash content, row_content = content\<rparr>])
       \<and> website_archive (snd (store_website_content env u content w)) = Some archived
       \<and> fst (archive_old_website_content u (snd (store_website_content env u content w))) =
           Inr content
       \<and> website_archive
           (snd (archive_old_website_content u (snd (store_website_content env u content w)))) =
           Some (archived @ [\<lparr>row_url = u, row_timestamp = clock env (clock_reads w),
                               row_content_hash = get_content_hash content,
                               row_content = content\<rparr>])
       \<and> websites
           (snd (archive_old_website_content u (snd (store_website_content env u content w)))) =
           Some rows"
  using assms
  by (simp add: store_website_content_def insert_website_def archive_old_website_content_def
      select_website_def insert_website_archive_def delete_website_def find_url_appended
      find_url_None filter_url_absent Let_def)

theorem store_then_archive_witness:
  "fst (store_website_content (env_page ''v1'') ''http://example.com'' ''v1'' (watching_new noon))
     = Inr ()
   \<and> fst (archive_old_website_content ''http://example.com''
            (snd (store_website_content (env_page ''v1'') ''http://example.com'' ''v1''
                    (watching_new noon)))) = Inr ''v1''
   \<and> website_archive
        (snd (archive_old_website_content ''http://example.com''
            (snd (store_website_content (env_page ''v1'') ''http://example.com'' ''v1''
                    (watching_new noon))))) =
        Some [\<lparr>row_url = ''http://example.com'', row_timestamp = noon,
               row_content_hash = get_content_hash ''v1'', row_content = ''v1''\<rparr>]
   \<and> websites
        (snd (archive_old_website_content ''http://example.com''
            (snd (store_website_content (env_page ''v1'') ''http://example.com'' ''v1''
                    (watching_new noon))))) = Some []"
  using store_then_archive
          [of "watching_new noon" "[]" "''http://example.com''" "[]" "env_page ''v1''" "''v1''"]
  by (simp add: watching_new_def env_page_def)

text \<open>
  C8. After \<^verbatim>\<open>create_tables\<close> on a database file whose \<^verbatim>\<open>websites\<close> table, if there
  is one, has at most one row per URL (a new file has no table), every sequence of
  \<^verbatim>\<open>store_website_content\<close>, \<^verbatim>\<open>archive_old_website_content\<close>, \<^verbatim>\<open>update_urls\<close> and
  \<^verbatim>\<open>remove_urls\<close>, failing calls included, leaves at most one \<^verbatim>\<open>websites\<close> row per URL.
\<close>

theorem one_snapshot_per_url_invariant:
  "one_snapshot_per_url w0 \<Longrightarrow> one_snapshot_per_url (run_ops env xs (create_tables w0))"
  by (simp add: one_snapshot_run_ops one_snapshot_create_tables)

theorem one_snapshot_per_url_invariant_witness:
  "one_snapshot_per_url no_tables
   \<and> one_snapshot_per_url
        (run_ops (env_page ''v1'')
           [Update [''http://example.com''], Store ''http://example.com'' ''v1'',
            Store ''http://example.com'' ''v2'', Archive ''http://example.com'',
            Store ''http://example.com'' ''v2'', Remove [''http://example.com'']]
           (create_tables no_tables))"
  using one_snapshot_per_url_invariant
          [of no_tables "env_page ''v1''"
              "[Update [''http://example.com''], Store ''http://example.com'' ''v1'',
                Store ''http://example.com'' ''v2'', Archive ''http://example.com'',
                Store ''http://example.com'' ''v2'', Remove [''http://example.com'']]"]
  by (simp add: one_snapshot_per_url_def no_tables_def)

subsection \<open>One turn of the monitor\<close>







end
